theory Spec2Isabelle
  imports Main "HOL-Library.Word" "HOL-Library.Sublist"
begin

section \<open>JavaScript values\<close>

text \<open>
  A JavaScript string is a sequence of UTF-16 code units. Equality (\<open>===\<close>), \<open>trim\<close>,
  \<open>startsWith\<close>, \<open>includes\<close> and concatenation all work on code units, so a string
  is a list of 16-bit words. The string literals of the source are ASCII and are written
  \<open>js ''...''\<close>.
\<close>

type_synonym code_unit = "16 word"
type_synonym jsstring = "code_unit list"
type_synonym byte = "8 word"

definition js :: "string \<Rightarrow> jsstring" where
  "js s = map (\<lambda>c. of_nat (of_char c)) s"

text \<open>
  \<open>String.prototype.trim\<close> removes WhiteSpace and LineTerminator code points from both
  ends: TAB, LF, VT, FF, CR, SP, NBSP, U+1680, U+2000..U+200A, LS, PS, U+202F, U+205F,
  U+3000 and U+FEFF. All of them are single code units.
\<close>

definition is_ws :: "code_unit \<Rightarrow> bool" where
  "is_ws c \<longleftrightarrow>
     c = 0x09 \<or> c = 0x0A \<or> c = 0x0B \<or> c = 0x0C \<or> c = 0x0D \<or> c = 0x20 \<or> c = 0xA0 \<or>
     c = 0x1680 \<or> (0x2000 \<le> c \<and> c \<le> 0x200A) \<or> c = 0x2028 \<or> c = 0x2029 \<or>
     c = 0x202F \<or> c = 0x205F \<or> c = 0x3000 \<or> c = 0xFEFF"

definition trim :: "jsstring \<Rightarrow> jsstring" where
  "trim s = rev (dropWhile is_ws (rev (dropWhile is_ws s)))"

text \<open>
  A thrown value. The values thrown in the two files are \<open>Error\<close> objects, and all the
  code does with a caught one is read its \<open>name\<close> and its \<open>message\<close>.
\<close>

record exn =
  name :: jsstring
  message :: jsstring

text \<open>
  The result of \<open>JSON.parse\<close> / \<open>response.json()\<close>. A JSON number is an IEEE double;
  the code only ever observes whether it is zero (truthiness) and its decimal rendering
  (string conversion), so a number carries these two observations.
\<close>

datatype json =
    JNull
  | JBool bool
  | JNumber (nonzero: bool) (rendering: jsstring)
  | JString jsstring
  | JArray "json list"
  | JObject "(jsstring \<times> json) list"

text \<open>
  \<open>Buffer.toString('base64')\<close>: three bytes become four digits of the standard alphabet,
  the last group is padded with \<open>=\<close>.
\<close>

definition base64_digit :: "nat \<Rightarrow> code_unit" where
  "base64_digit i =
     js ''ABCDEFGHIJKLMNOPQRSTUVWXYZabcdefghijklmnopqrstuvwxyz0123456789+/'' ! (i mod 64)"

fun toString_base64 :: "byte list \<Rightarrow> jsstring" where
  "toString_base64 [] = []"
| "toString_base64 [a] =
     [base64_digit (unat a div 4), base64_digit (unat a mod 4 * 16)] @ js ''==''"
| "toString_base64 [a, b] =
     [base64_digit (unat a div 4), base64_digit (unat a mod 4 * 16 + unat b div 16),
      base64_digit (unat b mod 16 * 4)] @ js ''=''"
| "toString_base64 (a # b # c # rest) =
     [base64_digit (unat a div 4), base64_digit (unat a mod 4 * 16 + unat b div 16),
      base64_digit (unat b mod 16 * 4 + unat c div 64), base64_digit (unat c mod 64)] @
     toString_base64 rest"

section \<open>The orchestrator: \<open>src/app/api/chat/route.ts\<close>\<close>

subsection \<open>Requests, capabilities, responses\<close>

record audio_file =
  file_name :: jsstring
  file_type :: jsstring
  file_bytes :: "byte list"

text \<open>
  An entry of the form is a text or a file, and \<open>formData.get\<close> yields the entry or \<open>null\<close>.
  The casts of lines 22 and 23 check nothing: the field named \<open>audio\<close> may hold a text.
  The field named \<open>history\<close> is only ever tested for truthiness and handed to
  \<open>JSON.parse\<close>, which reads its argument as a text, so it is modelled by that text (a
  file there behaves as the text \<open>[object File]\<close>).
\<close>

datatype form_entry = TextEntry jsstring | FileEntry audio_file

record form_data =
  form_audio :: "form_entry option"
  form_history :: "jsstring option"

text \<open>A request is what \<open>await request.formData()\<close> yields: the form, or a thrown error.\<close>

type_synonym request = "exn + form_data"

datatype voice = alloy | nova

record transcription_request =
  stt_model :: jsstring
  stt_file :: audio_file

record chat_request =
  chat_model :: jsstring
  chat_messages :: "json list"

record speech_request =
  tts_model :: jsstring
  tts_voice :: voice
  tts_input :: jsstring
  tts_response_format :: jsstring

record chat_message =
  content :: "jsstring option"

record choice =
  choice_message :: "chat_message option"

record chat_completion =
  choices :: "choice list"

text \<open>
  What the handler is given by its surroundings: from the JavaScript runtime
  \<open>JSON.parse\<close>, the \<open>TypeError\<close> raised when a non-iterable value is spread and the
  \<open>TypeError\<close> raised when a method that a value does not have is called; and the three
  capabilities of the OpenAI client, each returning its value or throwing.
  \<open>speech_create\<close> stands for \<open>openai.audio.speech.create\<close> followed by \<open>arrayBuffer()\<close>,
  which share one \<open>try\<close> block.
\<close>

record env =
  JSON_parse :: "jsstring \<Rightarrow> exn + json"
  not_iterable :: exn
  not_a_function :: exn
  transcriptions_create :: "transcription_request \<Rightarrow> exn + jsstring"
  chat_completions_create :: "chat_request \<Rightarrow> exn + chat_completion"
  speech_create :: "speech_request \<Rightarrow> exn + byte list"

text \<open>The capability invocations of one request, in the order they were made.\<close>

datatype call =
    Transcribe transcription_request
  | ChatComplete chat_request
  | Synthesize speech_request

text \<open>
  The three JSON bodies the handler sends: \<open>{userTranscript, llmTextResponse, audioBase64}\<close>
  (\<open>None\<close> is \<open>null\<close>), \<open>{error}\<close> and \<open>{error, details}\<close>, fields in this order.
\<close>

datatype body =
    Reply jsstring jsstring "jsstring option"
  | Failure jsstring
  | FailureDetails jsstring jsstring

record response =
  body :: body
  status_code :: nat

subsection \<open>The fixed strings\<close>

definition sentinel :: jsstring where
  "sentinel = js ''[Audio could not be transcribed]''"

definition msg_not_understood :: jsstring where
  "msg_not_understood = js ''Sorry, I couldn't understand the audio. Please try again.''"

definition msg_not_caught :: jsstring where
  "msg_not_caught = js ''Sorry, I didn't catch that. Could you please speak clearly?''"

definition msg_no_response :: jsstring where
  "msg_no_response = js ''Sorry, I could not generate a response at this moment.''"

definition msg_apology :: jsstring where
  "msg_apology = js ''Sorry, I encountered an error while processing your request.''"

definition system_prompt :: jsstring where
  "system_prompt =
     js ''You are a helpful and concise voice assistant. Respond clearly and naturally.''"

subsection \<open>The stages of \<open>POST\<close>\<close>

text \<open>\<open>historyString ? JSON.parse(historyString) : []\<close>\<close>

definition parse_history :: "env \<Rightarrow> jsstring option \<Rightarrow> exn + json" where
  "parse_history e historyString =
     (case historyString of
        None \<Rightarrow> Inr (JArray [])
      | Some s \<Rightarrow> if s = [] then Inr (JArray []) else JSON_parse e s)"

text \<open>
  Step 2: the transcript and the call made. A throwing transcription is replaced by the
  sentinel.
\<close>

definition stt_request :: "audio_file \<Rightarrow> transcription_request" where
  "stt_request f = \<lparr>stt_model = js ''whisper-1'', stt_file = f\<rparr>"

definition transcribe :: "env \<Rightarrow> audio_file \<Rightarrow> jsstring" where
  "transcribe e f =
     (case transcriptions_create e (stt_request f) of
        Inr t \<Rightarrow> t
      | Inl sttError \<Rightarrow> sentinel)"

text \<open>
  \<open>!userTranscript || userTranscript.trim().length < 1 ||
   userTranscript === "[Audio could not be transcribed]"\<close>
\<close>

definition needs_clarification :: "jsstring \<Rightarrow> bool" where
  "needs_clarification userTranscript \<longleftrightarrow>
     userTranscript = [] \<or> length (trim userTranscript) < 1 \<or> userTranscript = sentinel"

definition errorMessage :: "jsstring \<Rightarrow> jsstring" where
  "errorMessage userTranscript =
     (let isTranscriptionError = (userTranscript = sentinel)
      in if isTranscriptionError then msg_not_understood else msg_not_caught)"

definition tts_request :: "voice \<Rightarrow> jsstring \<Rightarrow> speech_request" where
  "tts_request v txt =
     \<lparr>tts_model = js ''tts-1'', tts_voice = v, tts_input = txt,
      tts_response_format = js ''mp3''\<rparr>"

text \<open>One synthesis attempt: the base64 audio, or \<open>null\<close> when the capability throws.\<close>

definition synthesize :: "env \<Rightarrow> voice \<Rightarrow> jsstring \<Rightarrow> jsstring option" where
  "synthesize e v txt =
     (case speech_create e (tts_request v txt) of
        Inr buf \<Rightarrow> Some (toString_base64 buf)
      | Inl ttsError \<Rightarrow> None)"

text \<open>Lines 58--93: the clarification branch. \<open>userTranscript || ""\<close> is \<open>userTranscript\<close>.\<close>

definition clarify :: "env \<Rightarrow> jsstring \<Rightarrow> response \<times> call list" where
  "clarify e userTranscript =
     (let msg = errorMessage userTranscript
      in (\<lparr>body = Reply userTranscript msg (synthesize e alloy msg), status_code = 200\<rparr>,
          [Synthesize (tts_request alloy msg)]))"

text \<open>
  \<open>[system, ...conversationHistory, user]\<close>. Spreading an array yields its elements, a
  string its code points (a surrogate pair is one element); anything else that
  \<open>JSON.parse\<close> can return is not iterable and the spread throws.
\<close>

definition is_high_surrogate :: "code_unit \<Rightarrow> bool" where
  "is_high_surrogate c \<longleftrightarrow> 0xD800 \<le> c \<and> c \<le> 0xDBFF"

definition is_low_surrogate :: "code_unit \<Rightarrow> bool" where
  "is_low_surrogate c \<longleftrightarrow> 0xDC00 \<le> c \<and> c \<le> 0xDFFF"

fun code_points :: "jsstring \<Rightarrow> jsstring list" where
  "code_points [] = []"
| "code_points [c] = [[c]]"
| "code_points (c # d # cs) =
     (if is_high_surrogate c \<and> is_low_surrogate d then [c, d] # code_points cs
      else [c] # code_points (d # cs))"

definition spread :: "env \<Rightarrow> json \<Rightarrow> exn + json list" where
  "spread e v =
     (case v of
        JArray xs \<Rightarrow> Inr xs
      | JString s \<Rightarrow> Inr (map JString (code_points s))
      | _ \<Rightarrow> Inl (not_iterable e))"

definition api_message :: "jsstring \<Rightarrow> jsstring \<Rightarrow> json" where
  "api_message r c = JObject [(js ''role'', JString r), (js ''content'', JString c)]"

definition build_messages :: "env \<Rightarrow> json \<Rightarrow> jsstring \<Rightarrow> exn + json list" where
  "build_messages e conversationHistory userTranscript =
     (case spread e conversationHistory of
        Inl err \<Rightarrow> Inl err
      | Inr hist \<Rightarrow>
          Inr ([api_message (js ''system'') system_prompt] @ hist @
               [api_message (js ''user'') userTranscript]))"

definition llm_request :: "json list \<Rightarrow> chat_request" where
  "llm_request messages = \<lparr>chat_model = js ''gpt-3.5-turbo'', chat_messages = messages\<rparr>"

text \<open>\<open>chatCompletion.choices[0]?.message?.content?.trim() || ''\<close>\<close>

definition first_content :: "chat_completion \<Rightarrow> jsstring" where
  "first_content c =
     (case choices c of
        [] \<Rightarrow> []
      | ch # _ \<Rightarrow>
          (case choice_message ch of
             None \<Rightarrow> []
           | Some m \<Rightarrow> (case content m of None \<Rightarrow> [] | Some s \<Rightarrow> trim s)))"

text \<open>Lines 105--124: the reply text.\<close>

definition llm :: "env \<Rightarrow> json list \<Rightarrow> jsstring" where
  "llm e messages =
     (case chat_completions_create e (llm_request messages) of
        Inr chatCompletion \<Rightarrow>
          (let llmTextResponse = first_content chatCompletion
           in if llmTextResponse = [] then msg_no_response else llmTextResponse)
      | Inl llmError \<Rightarrow> msg_apology)"

text \<open>Lines 127--150: synthesis of the reply, skipped for an empty text.\<close>

definition tts :: "env \<Rightarrow> jsstring \<Rightarrow> jsstring option \<times> call list" where
  "tts e llmTextResponse =
     (if llmTextResponse \<noteq> []
      then (synthesize e nova llmTextResponse, [Synthesize (tts_request nova llmTextResponse)])
      else (None, []))"

text \<open>Lines 96--159: the normal branch, after the transcript is known.\<close>

definition answer :: "env \<Rightarrow> json \<Rightarrow> jsstring \<Rightarrow> (exn + response) \<times> call list" where
  "answer e conversationHistory userTranscript =
     (case build_messages e conversationHistory userTranscript of
        Inl err \<Rightarrow> (Inl err, [])
      | Inr messages \<Rightarrow>
          (let llmTextResponse = llm e messages;
               (audioBase64, synth) = tts e llmTextResponse
           in (Inr \<lparr>body = Reply userTranscript llmTextResponse audioBase64, status_code = 200\<rparr>,
               ChatComplete (llm_request messages) # synth)))"

text \<open>The outer \<open>catch\<close>: \<open>error.message || 'Unknown server error'\<close>, status 500.\<close>

definition server_error :: "exn \<Rightarrow> response" where
  "server_error err =
     \<lparr>body = FailureDetails (js ''Failed to process audio chat'')
               (if message err \<noteq> [] then message err else js ''Unknown server error''),
      status_code = 500\<rparr>"

text \<open>
  The handler. The history is parsed before the audio is looked at (line 24 precedes
  line 27), and every exception that escapes an inner \<open>try\<close> ends in the outer \<open>catch\<close>.
  \<open>!audioFile\<close> (line 27) holds for \<open>null\<close> and for the empty text, never for a file. The
  buffer of line 36 is read by nothing afterwards, but \<open>audioFile.arrayBuffer()\<close> throws for
  a text, which has no such method. Logging is left out.
\<close>

definition POST :: "env \<Rightarrow> request \<Rightarrow> response \<times> call list" where
  "POST e request =
     (case request of
        Inl err \<Rightarrow> (server_error err, [])
      | Inr formData \<Rightarrow>
          (case parse_history e (form_history formData) of
             Inl err \<Rightarrow> (server_error err, [])
           | Inr conversationHistory \<Rightarrow>
               (case form_audio formData of
                  None \<Rightarrow> (\<lparr>body = Failure (js ''No audio file provided''), status_code = 400\<rparr>, [])
                | Some (TextEntry s) \<Rightarrow>
                    if s = []
                    then (\<lparr>body = Failure (js ''No audio file provided''), status_code = 400\<rparr>, [])
                    else (server_error (not_a_function e), [])
                | Some (FileEntry audioFile) \<Rightarrow>
                    (let userTranscript = transcribe e audioFile;
                         stt = Transcribe (stt_request audioFile)
                     in if needs_clarification userTranscript
                        then (case clarify e userTranscript of (r, cs) \<Rightarrow> (r, stt # cs))
                        else (case answer e conversationHistory userTranscript of
                                (Inl err, cs) \<Rightarrow> (server_error err, stt # cs)
                              | (Inr r, cs) \<Rightarrow> (r, stt # cs))))))"

section \<open>The recorder: \<open>src/app/page.tsx\<close>\<close>

text \<open>
  The page is a record of its React state and its refs; a handler maps the page to the
  next page and lists what it did to the outside world. A handler runs to its end before
  the next one starts: what other handlers might do while \<open>onstop\<close> awaits the network is
  not modelled. The model covers \<open>startRecording\<close>, \<open>stopRecording\<close>, the recorder's
  \<open>ondataavailable\<close> and \<open>onstop\<close> handlers and the callbacks of \<open>play()\<close>; the recorder's
  \<open>onerror\<close> handler, the unmount effect and \<open>replayAudio\<close> are left out.
\<close>

subsection \<open>Reading JavaScript values\<close>

fun truthy :: "json \<Rightarrow> bool" where
  "truthy JNull = False"
| "truthy (JBool b) = b"
| "truthy (JNumber nz r) = nz"
| "truthy (JString s) = (s \<noteq> [])"
| "truthy (JArray xs) = True"
| "truthy (JObject kvs) = True"

fun intercalate :: "jsstring \<Rightarrow> jsstring list \<Rightarrow> jsstring" where
  "intercalate sep [] = []"
| "intercalate sep [x] = x"
| "intercalate sep (x # y # ys) = x @ sep @ intercalate sep (y # ys)"

fun to_String :: "json \<Rightarrow> jsstring" where
  "to_String JNull = js ''null''"
| "to_String (JBool b) = (if b then js ''true'' else js ''false'')"
| "to_String (JNumber nz r) = r"
| "to_String (JString s) = s"
| "to_String (JArray xs) =
     intercalate (js '','') (map (\<lambda>x. if x = JNull then [] else to_String x) xs)"
| "to_String (JObject kvs) = js ''[object Object]''"

function show_nat :: "nat \<Rightarrow> jsstring" where
  "show_nat n =
     (if n < 10 then [of_nat (48 + n)] else show_nat (n div 10) @ [of_nat (48 + n mod 10)])"
  by pat_completeness auto
termination
  by (relation "measure id") auto

definition startsWith :: "jsstring \<Rightarrow> jsstring \<Rightarrow> bool" where
  "startsWith s p = prefix p s"

definition includes_text :: "jsstring \<Rightarrow> jsstring \<Rightarrow> bool" where
  "includes_text s p = sublist p s"

fun split :: "code_unit \<Rightarrow> jsstring \<Rightarrow> jsstring list" where
  "split sep [] = [[]]"
| "split sep (c # cs) =
     (if c = sep then [] # split sep cs
      else (case split sep cs of [] \<Rightarrow> [[c]] | seg # segs \<Rightarrow> (c # seg) # segs))"


subsection \<open>State of the page\<close>

datatype role = You | Assistant | System | Error

text \<open>
  \<open>msg_audio\<close> holds whatever \<open>data.audioBase64\<close> was: \<open>None\<close> is \<open>undefined\<close> (the field is
  absent), \<open>Some v\<close> a JSON value.
\<close>

record conversation_message =
  role :: role
  msg_text :: jsstring
  msg_audio :: "json option"

datatype api_role = user | assistant | system

record api_chat_message =
  api_role :: api_role
  api_content :: jsstring

record blob =
  blob_bytes :: "byte list"
  blob_type :: jsstring

text \<open>
  The \<open>FormData\<close> of a submission: the audio part with its file name, and the history,
  which travels as \<open>JSON.stringify(historyForApi)\<close>.
\<close>

record submission =
  audio_part :: blob
  audio_filename :: jsstring
  history_part :: "api_chat_message list"

text \<open>A response as \<open>fetch\<close> resolves it; \<open>json_result\<close> is what \<open>response.json()\<close> yields.\<close>

record http_response =
  http_status :: nat
  statusText :: jsstring
  json_result :: "exn + json"

definition ok :: "http_response \<Rightarrow> bool" where
  "ok r \<longleftrightarrow> 200 \<le> http_status r \<and> http_status r \<le> 299"

type_synonym media_stream = nat

text \<open>
  What the browser does when asked: \<open>getUserMedia\<close>, \<open>MediaRecorder.isTypeSupported\<close>,
  \<open>fetch\<close>, and the \<open>TypeError\<close> raised by reading a property of \<open>null\<close>.
\<close>

record browser =
  getUserMedia :: "exn + media_stream"
  isTypeSupported :: "jsstring \<Rightarrow> bool"
  fetch :: "submission \<Rightarrow> exn + http_response"
  null_property :: exn

text \<open>
  The \<open>MediaRecorder\<close> created by \<open>startRecording\<close>, with the variables its \<open>onstop\<close>
  handler closes over. \<open>status\<close> and \<open>conversation\<close> are constants of the render in which
  \<open>startRecording\<close> was created: inside the handler they keep the values they had when
  recording was started, whatever \<open>setStatus\<close> and \<open>setConversation\<close> do afterwards.
\<close>

record recorder =
  recording :: bool
  closure_status :: jsstring
  closure_conversation :: "conversation_message list"
  mimeType :: jsstring

record page =
  isRecording :: bool
  isLoading :: bool
  conversation :: "conversation_message list"
  status :: jsstring
  mediaRecorder :: "recorder option"
  audioChunks :: "blob list"
  mediaStream :: "media_stream option"
  audioPlayer :: bool
  audioPlayer_src :: jsstring

text \<open>What a handler does to the world outside the page state.\<close>

datatype effect = StopTracks media_stream | Fetch submission | Play jsstring

definition initial_page :: page where
  "initial_page =
     \<lparr>isRecording = False, isLoading = False, conversation = [],
      status = js ''Click Start Recording'', mediaRecorder = None, audioChunks = [],
      mediaStream = None, audioPlayer = True, audioPlayer_src = []\<rparr>"

subsection \<open>\<open>startRecording\<close>, \<open>stopRecording\<close>, \<open>ondataavailable\<close>\<close>

definition supportedTypes :: "jsstring list" where
  "supportedTypes =
     [js ''audio/webm;codecs=opus'', js ''audio/webm'', js ''audio/ogg;codecs=opus'',
      js ''audio/mp4'', js ''audio/aac'']"

text \<open>\<open>if (mediaStreamRef.current) { ...stop(); mediaStreamRef.current = null }\<close>\<close>

definition release_stream :: "page \<Rightarrow> page \<times> effect list" where
  "release_stream st =
     (case mediaStream st of
        None \<Rightarrow> (st, [])
      | Some s \<Rightarrow> (st\<lparr>mediaStream := None\<rparr>, [StopTracks s]))"

definition microphone_error :: "exn \<Rightarrow> jsstring" where
  "microphone_error err =
     (if name err = js ''NotAllowedError''
      then js ''Microphone permission denied. Please grant permission in browser settings.''
      else if name err = js ''NotFoundError''
      then js ''No microphone found. Please ensure a microphone is connected and enabled.''
      else js ''Could not access microphone.'' @ js '' '' @ message err)"

text \<open>
  Lines 35--250. \<open>getUserMedia\<close> may throw; the constructor of \<open>MediaRecorder\<close> and its
  \<open>start()\<close> are taken to succeed for a type that \<open>isTypeSupported\<close> accepts. The recorder
  keeps \<open>status\<close> and \<open>conversation\<close> as they are when the function is called.
\<close>

definition startRecording :: "browser \<Rightarrow> page \<Rightarrow> page \<times> effect list" where
  "startRecording b st =
     (if isRecording st then (st, [])
      else
        let previous = (case mediaStream st of None \<Rightarrow> [] | Some s \<Rightarrow> [StopTracks s])
        in case getUserMedia b of
             Inl err \<Rightarrow>
               (let (st', released) =
                      release_stream
                        (st\<lparr>status := js ''Error: '' @ microphone_error err,
                            isRecording := False\<rparr>)
                in (st', previous @ released))
           | Inr stream \<Rightarrow>
               (case find (isTypeSupported b) supportedTypes of
                  None \<Rightarrow>
                    (st\<lparr>mediaStream := None,
                        status := js ''Error: No supported audio format found for recording.''\<rparr>,
                     previous @ [StopTracks stream])
                | Some mt \<Rightarrow>
                    (st\<lparr>mediaStream := Some stream,
                        mediaRecorder :=
                          Some \<lparr>recording = True, closure_status = status st,
                                closure_conversation = conversation st, mimeType = mt\<rparr>,
                        audioChunks := [],
                        isRecording := True,
                        status := js ''Recording... Click Stop Recording''\<rparr>,
                     previous)))"

definition blob_size :: "blob \<Rightarrow> nat" where
  "blob_size d = length (blob_bytes d)"

definition ondataavailable :: "blob \<Rightarrow> page \<Rightarrow> page" where
  "ondataavailable d st =
     (if blob_size d > 0 then st\<lparr>audioChunks := audioChunks st @ [d]\<rparr> else st)"

definition stopRecording :: "page \<Rightarrow> page" where
  "stopRecording st =
     (case mediaRecorder st of
        None \<Rightarrow> st
      | Some r \<Rightarrow>
          if recording r
          then st\<lparr>mediaRecorder := Some (r\<lparr>recording := False\<rparr>),
                  status := js ''Stopping recording...''\<rparr>
          else st)"

subsection \<open>The \<open>onstop\<close> handler\<close>

text \<open>\<open>new Blob(audioChunksRef.current, { type: mimeType })\<close>\<close>

definition new_Blob :: "blob list \<Rightarrow> jsstring \<Rightarrow> blob" where
  "new_Blob chunks t = \<lparr>blob_bytes = concat (map blob_bytes chunks), blob_type = t\<rparr>"

text \<open>
  \<open>mimeType.split('/')[1].split(';')[0]\<close>; \<open>None\<close> when there is no \<open>'/'\<close>, where the
  second \<open>split\<close> is called on \<open>undefined\<close> and throws.
\<close>

definition fileExtension :: "jsstring \<Rightarrow> jsstring option" where
  "fileExtension mt =
     (case split 0x2F mt of
        _ # seg # _ \<Rightarrow> (case split 0x3B seg of [] \<Rightarrow> Some [] | ext # _ \<Rightarrow> Some ext)
      | _ \<Rightarrow> None)"

text \<open>Lines 117--123: \<open>slice(-8)\<close>, \<open>filter\<close>, \<open>map\<close>.\<close>

definition slice_last :: "nat \<Rightarrow> 'a list \<Rightarrow> 'a list" where
  "slice_last n xs = drop (length xs - n) xs"

definition to_api :: "conversation_message \<Rightarrow> api_chat_message" where
  "to_api msg =
     \<lparr>api_role = (if role msg = You then user else assistant), api_content = msg_text msg\<rparr>"

definition historyForApi :: "conversation_message list \<Rightarrow> api_chat_message list" where
  "historyForApi conv =
     map to_api (filter (\<lambda>msg. role msg = You \<or> role msg = Assistant) (slice_last 8 conv))"

text \<open>
  Reading one of the properties the handler asks for (\<open>error\<close>, \<open>details\<close>,
  \<open>userTranscript\<close>, \<open>llmTextResponse\<close>, \<open>audioBase64\<close>): \<open>null\<close> throws, an object looks
  the key up, and no other JSON value has a property of these names.
\<close>

definition get_property :: "browser \<Rightarrow> json \<Rightarrow> jsstring \<Rightarrow> exn + json option" where
  "get_property b v key =
     (case v of
        JNull \<Rightarrow> Inl (null_property b)
      | JObject kvs \<Rightarrow> Inr (map_of kvs key)
      | _ \<Rightarrow> Inr None)"

definition is_truthy :: "json option \<Rightarrow> bool" where
  "is_truthy v = (case v of None \<Rightarrow> False | Some x \<Rightarrow> truthy x)"

definition new_Error :: "jsstring \<Rightarrow> exn" where
  "new_Error msg = \<lparr>name = js ''Error'', message = msg\<rparr>"

text \<open>Lines 138--151: the message thrown for a response that is not \<open>ok\<close>.\<close>

definition request_failed :: "browser \<Rightarrow> http_response \<Rightarrow> jsstring" where
  "request_failed b response =
     (let errorMsg = js ''API request failed with status '' @ show_nat (http_status response);
          not_json = errorMsg @ js '': '' @ statusText response
      in case json_result response of
           Inl jsonError \<Rightarrow> not_json
         | Inr errorData \<Rightarrow>
             (case get_property b errorData (js ''error'') of
                Inl jsonError \<Rightarrow> not_json
              | Inr err \<Rightarrow>
                  if is_truthy err then to_String (the err)
                  else (case get_property b errorData (js ''details'') of
                          Inl jsonError \<Rightarrow> not_json
                        | Inr det \<Rightarrow> if is_truthy det then to_String (the det) else errorMsg)))"

text \<open>
  Lines 163--189: both turns are appended and the audio, if any, is handed to the player.
  \<open>play()\<close> only starts playback; its promise settles after the handler has finished
  (\<open>play_settled\<close> below), so no status is set on that path.
\<close>

definition present_reply ::
  "jsstring \<Rightarrow> jsstring \<Rightarrow> json option \<Rightarrow> page \<Rightarrow> page \<times> effect list" where
  "present_reply userTranscript llmTextResponse audioBase64 st =
     (let newUserMessage =
            \<lparr>role = You,
             msg_text = (if userTranscript \<noteq> [] then userTranscript
                         else js ''(No transcription)''),
             msg_audio = None\<rparr>;
          newAssistantMessage =
            \<lparr>role = Assistant, msg_text = llmTextResponse, msg_audio = audioBase64\<rparr>;
          st1 = st\<lparr>conversation := conversation st @ [newUserMessage, newAssistantMessage]\<rparr>
      in if is_truthy audioBase64 \<and> audioPlayer st1
         then (let audioSrc = js ''data:audio/mp3;base64,'' @ to_String (the audioBase64)
               in (st1\<lparr>audioPlayer_src := audioSrc\<rparr>, [Play audioSrc]))
         else if llmTextResponse \<noteq> []
         then (st1\<lparr>status := js ''Received text response. Click Start Recording when ready.''\<rparr>,
               [])
         else (st1\<lparr>status := js ''Processing complete. Click Start Recording.''\<rparr>, []))"

text \<open>
  Lines 153--189, for a parsed body \<open>data\<close>: the new state, the effects, and the value
  thrown, if any. Reading \<open>data.userTranscript\<close> throws when \<open>data\<close> is \<open>null\<close>; a field that
  is not a string fails the validation of line 159.
\<close>

definition invalid_format :: exn where
  "invalid_format = new_Error (js ''Invalid response format received from API.'')"

definition string_property :: "browser \<Rightarrow> json \<Rightarrow> jsstring \<Rightarrow> exn + jsstring option" where
  "string_property b data key =
     (case get_property b data key of
        Inl err \<Rightarrow> Inl err
      | Inr (Some (JString s)) \<Rightarrow> Inr (Some s)
      | Inr _ \<Rightarrow> Inr None)"

definition process_data :: "browser \<Rightarrow> json \<Rightarrow> page \<Rightarrow> page \<times> effect list \<times> exn option" where
  "process_data b data st0 =
     (let st = st0\<lparr>status := js ''Received response.''\<rparr>
      in case string_property b data (js ''userTranscript'') of
           Inl err \<Rightarrow> (st, [], Some err)
         | Inr None \<Rightarrow> (st, [], Some invalid_format)
         | Inr (Some userTranscript) \<Rightarrow>
             (case string_property b data (js ''llmTextResponse'') of
                Inl err \<Rightarrow> (st, [], Some err)
              | Inr None \<Rightarrow> (st, [], Some invalid_format)
              | Inr (Some llmTextResponse) \<Rightarrow>
                  (let audioBase64 = (case get_property b data (js ''audioBase64'') of
                                        Inr v \<Rightarrow> v | Inl err \<Rightarrow> None);
                       (st1, effs) = present_reply userTranscript llmTextResponse audioBase64 st
                   in (st1, effs, None))))"

text \<open>Lines 128--189: the \<open>try\<close> block.\<close>

definition try_submit :: "browser \<Rightarrow> submission \<Rightarrow> page \<Rightarrow> page \<times> effect list \<times> exn option" where
  "try_submit b formData st =
     (case fetch b formData of
        Inl err \<Rightarrow> (st, [Fetch formData], Some err)
      | Inr response \<Rightarrow>
          if \<not> ok response
          then (st, [Fetch formData], Some (new_Error (request_failed b response)))
          else (case json_result response of
                  Inl err \<Rightarrow> (st, [Fetch formData], Some err)
                | Inr data \<Rightarrow>
                    (let (st', effs, thrown) = process_data b data st
                     in (st', Fetch formData # effs, thrown))))"

text \<open>Lines 191--200: the \<open>catch\<close> block.\<close>

definition catch_error :: "exn \<Rightarrow> page \<Rightarrow> page \<times> effect list" where
  "catch_error err st =
     release_stream
       (st\<lparr>status := js ''Error: '' @ message err,
           conversation :=
             conversation st @
             [\<lparr>role = Error, msg_text = js ''Processing failed: '' @ message err, msg_audio = None\<rparr>]\<rparr>)"

text \<open>
  Lines 201--210: the \<open>finally\<close> block. The \<open>status\<close> it tests is the handler's closure
  variable.
\<close>

definition keeps_status :: "jsstring \<Rightarrow> bool" where
  "keeps_status s \<longleftrightarrow>
     startsWith s (js ''Error'') \<or> includes_text s (js ''Replay'') \<or>
     includes_text s (js ''Playing'')"

definition finally_block :: "recorder \<Rightarrow> page \<Rightarrow> page" where
  "finally_block r st =
     (let st1 = st\<lparr>isLoading := False, isRecording := False\<rparr>;
          st2 = (if \<not> keeps_status (closure_status r)
                 then st1\<lparr>status := js ''Ready. Click Start Recording.''\<rparr> else st1)
      in st2\<lparr>audioChunks := []\<rparr>)"

text \<open>Lines 81--211: the handler, run for the recorder \<open>r\<close> that fired the \<open>stop\<close> event.\<close>

definition onstop :: "browser \<Rightarrow> recorder \<Rightarrow> page \<Rightarrow> page \<times> effect list" where
  "onstop b r st0 =
     (let (st, released) =
            release_stream
              (st0\<lparr>isLoading := True, status := js ''Recording stopped. Processing audio...''\<rparr>)
      in if length (audioChunks st) = 0
         then (st\<lparr>status := js ''No audio detected. Please try recording again.'',
                  isLoading := False, isRecording := False\<rparr>,
               released)
         else
           (case fileExtension (mimeType r) of
              None \<Rightarrow> (st, released)
            | Some ext \<Rightarrow>
                (let audioBlob = new_Blob (audioChunks st) (mimeType r);
                     formData =
                       \<lparr>audio_part = audioBlob, audio_filename = js ''recording.'' @ ext,
                        history_part = historyForApi (closure_conversation r)\<rparr>;
                     (st1, effs, thrown) = try_submit b formData st;
                     (st2, effs') = (case thrown of
                                       None \<Rightarrow> (st1, [])
                                     | Some err \<Rightarrow> catch_error err st1)
                 in (finally_block r st2, released @ effs @ effs'))))"

text \<open>The \<open>then\<close>/\<open>catch\<close> callbacks of \<open>play()\<close>, run when its promise settles.\<close>

definition play_settled :: "bool \<Rightarrow> page \<Rightarrow> page" where
  "play_settled started st =
     (if started
      then st\<lparr>status := js ''Playing response... Click Start Recording when ready.''\<rparr>
      else st\<lparr>status := js ''Received response. Click 'Replay Audio' to listen.''\<rparr>)"

text \<open>
  One utterance: the user clicks Start and then Stop, the browser delivers the captured
  data to \<open>ondataavailable\<close> and then fires the \<open>stop\<close> event of the recorder just created.
\<close>

definition utterance :: "browser \<Rightarrow> blob list \<Rightarrow> page \<Rightarrow> page \<times> effect list" where
  "utterance b ds st0 =
     (let (st1, effs1) = startRecording b st0
      in case mediaRecorder st1 of
           None \<Rightarrow> (st1, effs1)
         | Some r \<Rightarrow>
             if isRecording st1 \<and> \<not> isRecording st0
             then (let st2 = foldl (\<lambda>st d. ondataavailable d st) (stopRecording st1) ds;
                       (st3, effs3) = onstop b r st2
                   in (st3, effs1 @ effs3))
             else (st1, effs1))"

section \<open>Vocabulary of the properties and example inputs\<close>


text \<open>
  The audio field fails the check of line 27 when it is absent or an empty text; it holds
  an audio payload when it is a file.
\<close>

definition audio_missing :: "form_data \<Rightarrow> bool" where
  "audio_missing fd =
     (case form_audio fd of
        None \<Rightarrow> True
      | Some (TextEntry s) \<Rightarrow> s = []
      | Some (FileEntry f) \<Rightarrow> False)"

definition audio_payload :: "form_data \<Rightarrow> audio_file option" where
  "audio_payload fd =
     (case form_audio fd of
        None \<Rightarrow> None
      | Some (TextEntry s) \<Rightarrow> None
      | Some (FileEntry f) \<Rightarrow> Some f)"

subsection \<open>Requests and capabilities\<close>

definition demo_audio :: audio_file where
  "demo_audio =
     \<lparr>file_name = js ''recording.webm'', file_type = js ''audio/webm'',
      file_bytes = [0x1A, 0x45, 0xDF, 0xA3]\<rparr>"

definition unexpected_end :: exn where
  "unexpected_end = \<lparr>name = js ''SyntaxError'', message = js ''Unexpected end of JSON input''\<rparr>"

definition service_down :: exn where
  "service_down = \<lparr>name = js ''APIConnectionError'', message = js ''Connection error.''\<rparr>"

text \<open>
  An environment in which the three capabilities have the given outcomes. Its
  \<open>JSON.parse\<close> is tabulated on the texts the examples pass to it or speak about: \<open>[]\<close>
  is the empty array, while the empty text and \<open>[\<close> are rejected with
  \<open>Unexpected end of JSON input\<close>; no other text is used.
\<close>

definition demo_env :: "(exn + jsstring) \<Rightarrow> (exn + chat_completion) \<Rightarrow> (exn + byte list) \<Rightarrow> env" where
  "demo_env stt chat speech =
     \<lparr>JSON_parse = (\<lambda>s. if s = js ''[]'' then Inr (JArray []) else Inl unexpected_end),
      not_iterable =
        \<lparr>name = js ''TypeError'', message = js ''conversationHistory is not iterable''\<rparr>,
      not_a_function =
        \<lparr>name = js ''TypeError'', message = js ''audioFile.arrayBuffer is not a function''\<rparr>,
      transcriptions_create = (\<lambda>q. stt),
      chat_completions_create = (\<lambda>q. chat),
      speech_create = (\<lambda>q. speech)\<rparr>"

definition completion :: "jsstring \<Rightarrow> chat_completion" where
  "completion s = \<lparr>choices = [\<lparr>choice_message = Some \<lparr>content = Some s\<rparr>\<rparr>]\<rparr>"

text \<open>
  Scenario B of the specification, in which every capability succeeds, and three
  variations: a transcript of two spaces, a failing transcription, a failing chat
  completion.
\<close>

definition env_B :: env where
  "env_B =
     demo_env (Inr (js ''What's the weather?''))
       (Inr (completion (js ''I don't have weather access.''))) (Inr [0x49, 0x44, 0x33])"

definition env_blank :: env where
  "env_blank =
     demo_env (Inr (js ''  '')) (Inr (completion (js ''unused''))) (Inr [0x49, 0x44, 0x33])"

definition env_stt_down :: env where
  "env_stt_down =
     demo_env (Inl service_down) (Inr (completion (js ''unused''))) (Inr [0x49, 0x44, 0x33])"

definition env_chat_down :: env where
  "env_chat_down =
     demo_env (Inr (js ''What's the weather?'')) (Inl service_down) (Inr [0x49, 0x44, 0x33])"

definition chat_messages_B :: "json list" where
  "chat_messages_B =
     [api_message (js ''system'') system_prompt,
      api_message (js ''user'') (js ''What's the weather?'')]"

definition request_B :: request where
  "request_B = Inr \<lparr>form_audio = Some (FileEntry demo_audio), form_history = Some (js ''[]'')\<rparr>"

subsection \<open>Pages and browsers\<close>

definition turn :: "role \<Rightarrow> string \<Rightarrow> conversation_message" where
  "turn r s = \<lparr>role = r, msg_text = js s, msg_audio = None\<rparr>"

definition demo_chunk :: blob where
  "demo_chunk = \<lparr>blob_bytes = [0x1A, 0x45, 0xDF, 0xA3], blob_type = js ''audio/webm''\<rparr>"

definition silent_chunk :: blob where
  "silent_chunk = \<lparr>blob_bytes = [], blob_type = js ''audio/webm''\<rparr>"

definition demo_reply :: "json \<Rightarrow> http_response" where
  "demo_reply a =
     \<lparr>http_status = 200, statusText = js ''OK'',
      json_result =
        Inr (JObject [(js ''userTranscript'', JString (js ''What's the weather?'')),
                      (js ''llmTextResponse'', JString (js ''I don't have weather access.'')),
                      (js ''audioBase64'', a)])\<rparr>"

definition failed_to_fetch :: exn where
  "failed_to_fetch = \<lparr>name = js ''TypeError'', message = js ''Failed to fetch''\<rparr>"

text \<open>
  A browser with a microphone that records \<open>audio/webm\<close> only, and whose \<open>fetch\<close> has the
  given outcome: a reply with audio, a reply whose \<open>audioBase64\<close> is \<open>null\<close>, no network.
\<close>

definition demo_browser :: "(exn + http_response) \<Rightarrow> browser" where
  "demo_browser r =
     \<lparr>getUserMedia = Inr 1,
      isTypeSupported = (\<lambda>t. t = js ''audio/webm''),
      fetch = (\<lambda>formData. r),
      null_property =
        \<lparr>name = js ''TypeError'', message = js ''Cannot read properties of null''\<rparr>\<rparr>"

definition browser_audio :: browser where
  "browser_audio = demo_browser (Inr (demo_reply (JString (js ''SUQz''))))"

definition browser_text_only :: browser where
  "browser_text_only = demo_browser (Inr (demo_reply JNull))"

definition browser_offline :: browser where
  "browser_offline = demo_browser (Inl failed_to_fetch)"

text \<open>The recorder that \<open>startRecording\<close> creates on the initial page.\<close>

definition first_recorder :: recorder where
  "first_recorder =
     \<lparr>recording = True, closure_status = js ''Click Start Recording'',
      closure_conversation = [], mimeType = js ''audio/webm''\<rparr>"

text \<open>A recorder started after ten turns, the fourth of them an error.\<close>

definition demo_recorder :: recorder where
  "demo_recorder =
     \<lparr>recording = False, closure_status = js ''Ready. Click Start Recording.'',
      closure_conversation =
        [turn You ''a'', turn Assistant ''b'', turn You ''c'',
         turn Error ''Processing failed: Failed to fetch'', turn You ''d'',
         turn Assistant ''e'', turn You ''f'', turn Assistant ''g'', turn You ''h'',
         turn Assistant ''i''],
      mimeType = js ''audio/webm''\<rparr>"

definition demo_submission :: submission where
  "demo_submission =
     \<lparr>audio_part = demo_chunk, audio_filename = js ''recording.webm'',
      history_part =
        [\<lparr>api_role = user, api_content = js ''c''\<rparr>,
         \<lparr>api_role = user, api_content = js ''d''\<rparr>,
         \<lparr>api_role = assistant, api_content = js ''e''\<rparr>,
         \<lparr>api_role = user, api_content = js ''f''\<rparr>,
         \<lparr>api_role = assistant, api_content = js ''g''\<rparr>,
         \<lparr>api_role = user, api_content = js ''h''\<rparr>,
         \<lparr>api_role = assistant, api_content = js ''i''\<rparr>]\<rparr>"

text \<open>
  The page after a first utterance was answered with audio and playback has started:
  its status is the playback message.
\<close>

definition after_first_turn :: page where
  "after_first_turn = play_settled True (fst (utterance browser_audio [demo_chunk] initial_page))"

section \<open>Facts about strings\<close>

lemma unat_code_unit_of_char: "unat (of_nat (of_char c) :: code_unit) = of_char c"
proof -
  have "(of_char c :: nat) < 65536"
    using nat_of_char_less_256 [of c] by linarith
  thus ?thesis by (simp add: unat_of_nat)
qed

lemma js_eq_iff: "js a = js b \<longleftrightarrow> a = b"
proof -
  have "inj (\<lambda>c::char. (of_nat (of_char c) :: code_unit))"
  proof (rule injI)
    fix x y :: char
    assume "(of_nat (of_char x) :: code_unit) = of_nat (of_char y)"
    hence "unat (of_nat (of_char x) :: code_unit) = unat (of_nat (of_char y) :: code_unit)"
      by (rule arg_cong)
    hence "(of_char x :: nat) = of_char y"
      by (simp only: unat_code_unit_of_char)
    thus "x = y" by simp
  qed
  thus ?thesis unfolding js_def by simp
qed

lemma js_Nil: "js s = [] \<longleftrightarrow> s = []" by (simp add: js_def)

lemma trim_Nil_iff: "trim s = [] \<longleftrightarrow> (\<forall>c\<in>set s. is_ws c)"
proof
  assume "trim s = []"
  hence "dropWhile is_ws s = []"
    by (simp add: trim_def) (metis dropWhile_eq_Nil_conv hd_dropWhile list.set_sel(1))
  thus "\<forall>c\<in>set s. is_ws c" by simp
next
  assume "\<forall>c\<in>set s. is_ws c"
  thus "trim s = []" by (auto simp: trim_def dest: set_dropWhileD)
qed

lemma needs_clarification_iff:
  "needs_clarification t \<longleftrightarrow> t = [] \<or> (\<forall>c\<in>set t. is_ws c) \<or> t = sentinel"
  by (auto simp: needs_clarification_def trim_Nil_iff)

section \<open>Properties of the orchestrator\<close>

subsection \<open>The six ways through \<open>POST\<close>\<close>

lemma POST_formData_throws: "POST e (Inl err) = (server_error err, [])"
  by (simp add: POST_def)

lemma POST_parse_throws:
  "parse_history e (form_history fd) = Inl err \<Longrightarrow> POST e (Inr fd) = (server_error err, [])"
  by (simp add: POST_def)

lemma POST_no_audio:
  "parse_history e (form_history fd) = Inr h \<Longrightarrow> audio_missing fd \<Longrightarrow>
   POST e (Inr fd) =
     (\<lparr>body = Failure (js ''No audio file provided''), status_code = 400\<rparr>, [])"
  by (auto simp: POST_def audio_missing_def split: option.splits form_entry.splits)

lemma POST_not_a_file:
  "parse_history e (form_history fd) = Inr h \<Longrightarrow> form_audio fd = Some (TextEntry s) \<Longrightarrow>
   s \<noteq> [] \<Longrightarrow> POST e (Inr fd) = (server_error (not_a_function e), [])"
  by (simp add: POST_def)

lemma POST_clarify:
  "parse_history e (form_history fd) = Inr h \<Longrightarrow> form_audio fd = Some (FileEntry f) \<Longrightarrow>
   needs_clarification (transcribe e f) \<Longrightarrow>
   POST e (Inr fd) =
     (\<lparr>body = Reply (transcribe e f) (errorMessage (transcribe e f))
                (synthesize e alloy (errorMessage (transcribe e f))),
       status_code = 200\<rparr>,
      [Transcribe (stt_request f),
       Synthesize (tts_request alloy (errorMessage (transcribe e f)))])"
  by (simp add: POST_def clarify_def Let_def)

lemma POST_spread_throws:
  "parse_history e (form_history fd) = Inr h \<Longrightarrow> form_audio fd = Some (FileEntry f) \<Longrightarrow>
   \<not> needs_clarification (transcribe e f) \<Longrightarrow> spread e h = Inl err \<Longrightarrow>
   POST e (Inr fd) = (server_error err, [Transcribe (stt_request f)])"
  by (simp add: POST_def answer_def build_messages_def Let_def)

lemma POST_answer:
  "parse_history e (form_history fd) = Inr h \<Longrightarrow> form_audio fd = Some (FileEntry f) \<Longrightarrow>
   \<not> needs_clarification (transcribe e f) \<Longrightarrow>
   build_messages e h (transcribe e f) = Inr ms \<Longrightarrow>
   POST e (Inr fd) =
     (\<lparr>body = Reply (transcribe e f) (llm e ms) (fst (tts e (llm e ms))), status_code = 200\<rparr>,
      Transcribe (stt_request f) # ChatComplete (llm_request ms) # snd (tts e (llm e ms)))"
  by (simp add: POST_def answer_def Let_def split: prod.splits)

lemma build_messages_Inl:
  "build_messages e h t = Inl err \<longleftrightarrow> spread e h = Inl err"
  by (simp add: build_messages_def split: sum.splits)

lemma POST_cases:
  obtains
    (form_throws) err where "req = Inl err" "POST e req = (server_error err, [])"
  | (parse_throws) fd err where "req = Inr fd" "parse_history e (form_history fd) = Inl err"
      "POST e req = (server_error err, [])"
  | (no_audio) fd h where "req = Inr fd" "parse_history e (form_history fd) = Inr h"
      "audio_missing fd"
      "POST e req = (\<lparr>body = Failure (js ''No audio file provided''), status_code = 400\<rparr>, [])"
  | (not_a_file) fd h s where "req = Inr fd" "parse_history e (form_history fd) = Inr h"
      "form_audio fd = Some (TextEntry s)" "s \<noteq> []"
      "POST e req = (server_error (not_a_function e), [])"
  | (clarified) fd h f where "req = Inr fd" "parse_history e (form_history fd) = Inr h"
      "form_audio fd = Some (FileEntry f)" "needs_clarification (transcribe e f)"
      "POST e req =
         (\<lparr>body = Reply (transcribe e f) (errorMessage (transcribe e f))
                    (synthesize e alloy (errorMessage (transcribe e f))),
           status_code = 200\<rparr>,
          [Transcribe (stt_request f),
           Synthesize (tts_request alloy (errorMessage (transcribe e f)))])"
  | (spread_throws) fd h f err where "req = Inr fd" "parse_history e (form_history fd) = Inr h"
      "form_audio fd = Some (FileEntry f)" "\<not> needs_clarification (transcribe e f)"
      "spread e h = Inl err"
      "POST e req = (server_error err, [Transcribe (stt_request f)])"
  | (answered) fd h f ms where "req = Inr fd" "parse_history e (form_history fd) = Inr h"
      "form_audio fd = Some (FileEntry f)" "\<not> needs_clarification (transcribe e f)"
      "build_messages e h (transcribe e f) = Inr ms"
      "POST e req =
         (\<lparr>body = Reply (transcribe e f) (llm e ms) (fst (tts e (llm e ms))),
           status_code = 200\<rparr>,
          Transcribe (stt_request f) # ChatComplete (llm_request ms) # snd (tts e (llm e ms)))"
proof (cases req)
  case (Inl err)
  thus ?thesis using form_throws POST_formData_throws by blast
next
  case (Inr fd)
  show ?thesis
  proof (cases "parse_history e (form_history fd)")
    case (Inl err)
    thus ?thesis using parse_throws POST_parse_throws Inr by blast
  next
    case h: (Inr h)
    show ?thesis
    proof (cases "form_audio fd")
      case None
      hence "audio_missing fd" by (simp add: audio_missing_def)
      thus ?thesis using no_audio POST_no_audio h Inr by blast
    next
      case (Some entry)
      show ?thesis
      proof (cases entry)
        case (TextEntry s)
        show ?thesis
        proof (cases "s = []")
          case True
          hence "audio_missing fd" using Some TextEntry by (simp add: audio_missing_def)
          thus ?thesis using no_audio POST_no_audio h Inr by blast
        next
          case False
          have "form_audio fd = Some (TextEntry s)" using Some TextEntry by simp
          thus ?thesis using not_a_file POST_not_a_file h Inr False by blast
        qed
      next
        case (FileEntry f)
        hence entry: "form_audio fd = Some (FileEntry f)" using Some by simp
        show ?thesis
        proof (cases "needs_clarification (transcribe e f)")
          case True
          thus ?thesis using clarified POST_clarify h Inr entry by blast
        next
          case False
          show ?thesis
          proof (cases "build_messages e h (transcribe e f)")
            case (Inl err)
            hence "spread e h = Inl err" by (simp add: build_messages_Inl)
            thus ?thesis using spread_throws POST_spread_throws h Inr entry False by blast
          next
            case (Inr ms)
            thus ?thesis using answered POST_answer h \<open>req = Inr fd\<close> entry False by blast
          qed
        qed
      qed
    qed
  qed
qed

subsection \<open>The stages\<close>

lemma status_server_error: "status_code (server_error err) = 500"
  by (simp add: server_error_def)

lemma body_server_error:
  "body (server_error err) =
     FailureDetails (js ''Failed to process audio chat'')
       (if message err \<noteq> [] then message err else js ''Unknown server error'')"
  by (simp add: server_error_def)

lemma sentinel_nonempty: "sentinel \<noteq> []"
  by (simp add: sentinel_def js_Nil)

lemma clarifications_distinct: "msg_not_understood \<noteq> msg_not_caught"
  by (simp add: msg_not_understood_def msg_not_caught_def js_eq_iff)

lemma errorMessage_nonempty: "errorMessage t \<noteq> []"
  by (simp add: errorMessage_def msg_not_understood_def msg_not_caught_def js_Nil)

lemma llm_nonempty: "llm e ms \<noteq> []"
  by (simp add: llm_def Let_def msg_no_response_def msg_apology_def js_Nil split: sum.splits)

lemma llm_throws:
  "chat_completions_create e (llm_request ms) = Inl err \<Longrightarrow> llm e ms = msg_apology"
  by (simp add: llm_def)

lemma synthesize_Some:
  "synthesize e v t = Some a \<Longrightarrow>
   \<exists>buf. speech_create e (tts_request v t) = Inr buf \<and> a = toString_base64 buf"
  by (auto simp: synthesize_def split: sum.splits)

lemma tts_nonempty:
  "t \<noteq> [] \<Longrightarrow> tts e t = (synthesize e nova t, [Synthesize (tts_request nova t)])"
  by (simp add: tts_def)

lemma tts_input_request: "tts_input (tts_request v t) = t"
  by (simp add: tts_request_def)

lemma transcribe_throws:
  "transcriptions_create e (stt_request f) = Inl err \<Longrightarrow> transcribe e f = sentinel"
  by (simp add: transcribe_def)

lemma needs_clarification_sentinel: "needs_clarification sentinel"
  by (simp add: needs_clarification_def)

subsection \<open>Audio and text of a reply\<close>

text \<open>
  Claim C1. Whenever the handler answers with a reply body, every synthesis request it made
  had the returned \<open>llmTextResponse\<close> as its input, and an \<open>audioBase64\<close> that is not \<open>null\<close>
  is the base64 encoding of the bytes the speech capability returned for exactly that
  text: the clarification message, the model's reply, or the apology.
\<close>

theorem reply_audio_matches_text:
  assumes "body (fst (POST e req)) = Reply u t ab"
  shows "(\<forall>q. Synthesize q \<in> set (snd (POST e req)) \<longrightarrow> tts_input q = t) \<and>
         (\<forall>a. ab = Some a \<longrightarrow>
            (\<exists>v buf. Synthesize (tts_request v t) \<in> set (snd (POST e req)) \<and>
                     speech_create e (tts_request v t) = Inr buf \<and>
                     a = toString_base64 buf))"
proof (cases e req rule: POST_cases)
  case (form_throws err)
  with assms show ?thesis by (simp add: server_error_def)
next
  case (parse_throws fd err)
  with assms show ?thesis by (simp add: server_error_def)
next
  case (not_a_file fd h s)
  with assms show ?thesis by (simp add: server_error_def)
next
  case (no_audio fd h)
  with assms show ?thesis by simp
next
  case (clarified fd h f)
  with assms have t: "t = errorMessage (transcribe e f)"
    and ab: "ab = synthesize e alloy t"
    by auto
  have cs: "snd (POST e req) = [Transcribe (stt_request f), Synthesize (tts_request alloy t)]"
    using clarified by (simp add: t)
  show ?thesis using synthesize_Some [of e alloy t] by (auto simp: ab cs tts_input_request)
next
  case (spread_throws fd h f err)
  with assms show ?thesis by (simp add: server_error_def)
next
  case (answered fd h f ms)
  with assms have t: "t = llm e ms" and ab: "ab = fst (tts e t)"
    by auto
  have cs: "snd (POST e req) =
      Transcribe (stt_request f) # ChatComplete (llm_request ms) # snd (tts e t)"
    using answered by (simp add: t)
  have "t \<noteq> []" by (simp add: t llm_nonempty)
  hence "tts e t = (synthesize e nova t, [Synthesize (tts_request nova t)])"
    by (rule tts_nonempty)
  thus ?thesis using synthesize_Some [of e nova t] by (auto simp: ab cs tts_input_request)
qed

theorem reply_audio_matches_text_witness:
  "body (fst (POST env_B request_B)) =
     Reply (js ''What's the weather?'') (js ''I don't have weather access.'') (Some (js ''SUQz'')) \<and>
   (\<exists>v buf. Synthesize (tts_request v (js ''I don't have weather access.''))
               \<in> set (snd (POST env_B request_B)) \<and>
             speech_create env_B (tts_request v (js ''I don't have weather access.'')) = Inr buf \<and>
             js ''SUQz'' = toString_base64 buf)"
proof -
  have h: "body (fst (POST env_B request_B)) =
     Reply (js ''What's the weather?'') (js ''I don't have weather access.'') (Some (js ''SUQz''))"
    by code_simp
  show ?thesis using h reply_audio_matches_text [OF h] by simp
qed

subsection \<open>Blank and failed transcripts\<close>

text \<open>
  Claim C2. When transcription was invoked and the transcript (the sentinel, if the
  capability threw) is empty, consists of whitespace only, or is the sentinel, the
  chat-completion capability is not invoked, and the response has status 200, the
  transcript as \<open>userTranscript\<close>, and as \<open>llmTextResponse\<close> the clarification message: one
  text for the sentinel, a different one otherwise. \<open>audioBase64\<close> is the outcome of
  synthesizing that message, present or \<open>null\<close>.
\<close>

theorem blank_transcript_skips_chat:
  assumes "Transcribe (stt_request f) \<in> set (snd (POST e req))"
    and "transcribe e f = [] \<or> (\<forall>c\<in>set (transcribe e f). is_ws c) \<or> transcribe e f = sentinel"
  shows "(\<forall>q. ChatComplete q \<notin> set (snd (POST e req))) \<and>
         fst (POST e req) =
           \<lparr>body = Reply (transcribe e f)
                    (if transcribe e f = sentinel then msg_not_understood else msg_not_caught)
                    (synthesize e alloy
                       (if transcribe e f = sentinel then msg_not_understood else msg_not_caught)),
            status_code = 200\<rparr> \<and>
         msg_not_understood \<noteq> msg_not_caught"
proof -
  have nc: "needs_clarification (transcribe e f)"
    using assms(2) by (simp add: needs_clarification_iff)
  have em: "errorMessage (transcribe e f) =
      (if transcribe e f = sentinel then msg_not_understood else msg_not_caught)"
    by (simp add: errorMessage_def)
  show ?thesis
  proof (cases e req rule: POST_cases)
    case (form_throws err)
    with assms(1) show ?thesis by simp
  next
    case (parse_throws fd err)
    with assms(1) show ?thesis by simp
  next
    case (not_a_file fd h s)
    with assms(1) show ?thesis by simp
  next
    case (no_audio fd h)
    with assms(1) show ?thesis by simp
  next
    case (clarified fd h g)
    with assms(1) have "g = f" by (simp add: stt_request_def)
    with clarified em show ?thesis by (simp add: clarifications_distinct)
  next
    case (spread_throws fd h g err)
    with assms(1) have "g = f" by (simp add: stt_request_def)
    with spread_throws nc show ?thesis by simp
  next
    case (answered fd h g ms)
    with assms(1) have "g = f" by (auto simp: stt_request_def tts_def split: if_splits)
    with answered nc show ?thesis by simp
  qed
qed

theorem blank_transcript_skips_chat_witness:
  "Transcribe (stt_request demo_audio) \<in> set (snd (POST env_blank request_B)) \<and>
   transcribe env_blank demo_audio = js ''  '' \<and>
   (\<forall>q. ChatComplete q \<notin> set (snd (POST env_blank request_B))) \<and>
   fst (POST env_blank request_B) =
     \<lparr>body = Reply (js ''  '') msg_not_caught (Some (js ''SUQz'')), status_code = 200\<rparr>"
proof -
  have h1: "Transcribe (stt_request demo_audio) \<in> set (snd (POST env_blank request_B))"
    by code_simp
  have t: "transcribe env_blank demo_audio = js ''  ''"
    by code_simp
  have ws: "\<forall>c\<in>set (js ''  ''). is_ws c"
    by code_simp
  have h2: "transcribe env_blank demo_audio = [] \<or>
            (\<forall>c\<in>set (transcribe env_blank demo_audio). is_ws c) \<or>
            transcribe env_blank demo_audio = sentinel"
    using ws by (simp only: t) simp
  have n: "js ''  '' \<noteq> sentinel"
    by (simp add: sentinel_def js_eq_iff)
  have s: "synthesize env_blank alloy msg_not_caught = Some (js ''SUQz'')"
    by code_simp
  have "(\<forall>q. ChatComplete q \<notin> set (snd (POST env_blank request_B))) \<and>
        fst (POST env_blank request_B) =
          \<lparr>body = Reply (js ''  '') msg_not_caught (Some (js ''SUQz'')), status_code = 200\<rparr>"
    using blank_transcript_skips_chat [OF h1 h2] n s by (simp add: t)
  with h1 t show ?thesis by (intro conjI) simp_all
qed

text \<open>
  Claim C9. When the transcription capability was invoked and threw, the response has
  status 200, \<open>userTranscript\<close> is the sentinel, which is not the empty string, and
  \<open>llmTextResponse\<close> is the could-not-transcribe clarification.
\<close>

theorem transcription_failure_gives_clarification:
  assumes "Transcribe q \<in> set (snd (POST e req))"
    and "transcriptions_create e q = Inl err"
  shows "fst (POST e req) =
           \<lparr>body = Reply sentinel msg_not_understood (synthesize e alloy msg_not_understood),
            status_code = 200\<rparr> \<and>
         sentinel \<noteq> []"
proof -
  have em: "errorMessage sentinel = msg_not_understood"
    by (simp add: errorMessage_def)
  show ?thesis
  proof (cases e req rule: POST_cases)
    case (form_throws err)
    with assms(1) show ?thesis by simp
  next
    case (parse_throws fd err)
    with assms(1) show ?thesis by simp
  next
    case (not_a_file fd h s)
    with assms(1) show ?thesis by simp
  next
    case (no_audio fd h)
    with assms(1) show ?thesis by simp
  next
    case (clarified fd h f)
    with assms(1) have "q = stt_request f" by simp
    with assms(2) have "transcribe e f = sentinel" by (simp add: transcribe_throws)
    with clarified em show ?thesis by (simp add: sentinel_nonempty)
  next
    case (spread_throws fd h f err')
    with assms(1) have "q = stt_request f" by simp
    with assms(2) have "transcribe e f = sentinel" by (simp add: transcribe_throws)
    with spread_throws show ?thesis by (simp add: needs_clarification_sentinel)
  next
    case (answered fd h f ms)
    with assms(1) have "q = stt_request f" by (auto simp: tts_def split: if_splits)
    with assms(2) have "transcribe e f = sentinel" by (simp add: transcribe_throws)
    with answered show ?thesis by (simp add: needs_clarification_sentinel)
  qed
qed

theorem transcription_failure_gives_clarification_witness:
  "Transcribe (stt_request demo_audio) \<in> set (snd (POST env_stt_down request_B)) \<and>
   transcriptions_create env_stt_down (stt_request demo_audio) = Inl service_down \<and>
   fst (POST env_stt_down request_B) =
     \<lparr>body = Reply sentinel msg_not_understood (Some (js ''SUQz'')), status_code = 200\<rparr>"
proof -
  have h1: "Transcribe (stt_request demo_audio) \<in> set (snd (POST env_stt_down request_B))"
    by code_simp
  have h2: "transcriptions_create env_stt_down (stt_request demo_audio) = Inl service_down"
    by code_simp
  have s: "synthesize env_stt_down alloy msg_not_understood = Some (js ''SUQz'')"
    by code_simp
  show ?thesis
    using h1 h2 transcription_failure_gives_clarification [OF h1 h2] s by simp
qed

subsection \<open>A failing chat completion\<close>

text \<open>
  Claim C3. When the chat-completion capability was invoked (so the transcript was not
  blank) and threw, the response has status 200, \<open>llmTextResponse\<close> is the fixed apology,
  and the handler went on to ask for the synthesis of that apology, whose outcome is the
  returned \<open>audioBase64\<close>.
\<close>

theorem chat_failure_gives_apology:
  assumes "ChatComplete q \<in> set (snd (POST e req))"
    and "chat_completions_create e q = Inl err"
  shows "\<exists>u. fst (POST e req) =
           \<lparr>body = Reply u msg_apology (synthesize e nova msg_apology), status_code = 200\<rparr> \<and>
         Synthesize (tts_request nova msg_apology) \<in> set (snd (POST e req))"
proof (cases e req rule: POST_cases)
  case (form_throws err)
  with assms(1) show ?thesis by simp
next
  case (parse_throws fd err)
  with assms(1) show ?thesis by simp
next
  case (not_a_file fd h s)
  with assms(1) show ?thesis by simp
next
  case (no_audio fd h)
  with assms(1) show ?thesis by simp
next
  case (clarified fd h f)
  with assms(1) show ?thesis by simp
next
  case (spread_throws fd h f err)
  with assms(1) show ?thesis by simp
next
  case (answered fd h f ms)
  with assms(1) have "q = llm_request ms" by (auto simp: tts_def split: if_splits)
  with assms(2) have l: "llm e ms = msg_apology" by (simp add: llm_throws)
  have "msg_apology \<noteq> []" using llm_nonempty [of e ms] by (simp add: l)
  hence "tts e msg_apology =
      (synthesize e nova msg_apology, [Synthesize (tts_request nova msg_apology)])"
    by (rule tts_nonempty)
  with answered l show ?thesis by simp
qed

theorem chat_failure_gives_apology_witness:
  "ChatComplete (llm_request (chat_messages_B)) \<in> set (snd (POST env_chat_down request_B)) \<and>
   chat_completions_create env_chat_down (llm_request chat_messages_B) = Inl service_down \<and>
   (\<exists>u. fst (POST env_chat_down request_B) =
          \<lparr>body = Reply u msg_apology (Some (js ''SUQz'')), status_code = 200\<rparr>) \<and>
   Synthesize (tts_request nova msg_apology) \<in> set (snd (POST env_chat_down request_B))"
proof -
  have h1: "ChatComplete (llm_request chat_messages_B) \<in> set (snd (POST env_chat_down request_B))"
    by code_simp
  have h2: "chat_completions_create env_chat_down (llm_request chat_messages_B) = Inl service_down"
    by code_simp
  have s: "synthesize env_chat_down nova msg_apology = Some (js ''SUQz'')"
    by code_simp
  show ?thesis using h1 h2 chat_failure_gives_apology [OF h1 h2] s by simp
qed

subsection \<open>The reply text is never empty\<close>

text \<open>
  Claim C10. Every response with status 200 carries a reply body whose \<open>llmTextResponse\<close>
  is not the empty string.
\<close>

theorem success_reply_text_nonempty:
  assumes "status_code (fst (POST e req)) = 200"
  shows "\<exists>u t ab. body (fst (POST e req)) = Reply u t ab \<and> t \<noteq> []"
proof (cases e req rule: POST_cases)
  case (form_throws err)
  with assms show ?thesis by (simp add: status_server_error)
next
  case (parse_throws fd err)
  with assms show ?thesis by (simp add: status_server_error)
next
  case (not_a_file fd h s)
  with assms show ?thesis by (simp add: status_server_error)
next
  case (no_audio fd h)
  with assms show ?thesis by simp
next
  case (clarified fd h f)
  thus ?thesis by (simp add: errorMessage_nonempty)
next
  case (spread_throws fd h f err)
  with assms show ?thesis by (simp add: status_server_error)
next
  case (answered fd h f ms)
  thus ?thesis by (simp add: llm_nonempty)
qed

theorem success_reply_text_nonempty_witness:
  "status_code (fst (POST env_B request_B)) = 200 \<and>
   (\<exists>u t ab. body (fst (POST env_B request_B)) = Reply u t ab \<and> t \<noteq> [])"
proof -
  have h: "status_code (fst (POST env_B request_B)) = 200"
    by code_simp
  show ?thesis using h success_reply_text_nonempty [OF h] by simp
qed

subsection \<open>Requests without audio\<close>


text \<open>
  A text in the audio field is no audio file either. When it is not empty it passes the
  check of line 27, and line 36 throws: the answer is status 500 again.
\<close>

lemma text_in_audio_field_is_server_error:
  "audio_payload \<lparr>form_audio = Some (TextEntry (js ''hello'')), form_history = None\<rparr> = None \<and>
   POST env_B (Inr \<lparr>form_audio = Some (TextEntry (js ''hello'')), form_history = None\<rparr>) =
     (\<lparr>body = FailureDetails (js ''Failed to process audio chat'')
                (js ''audioFile.arrayBuffer is not a function''),
       status_code = 500\<rparr>, [])"
  by code_simp



subsection \<open>A history that does not parse\<close>

text \<open>
  An empty history field is no JSON text, yet it is never handed to \<open>JSON.parse\<close>: the
  request is handled as if the field held \<open>[]\<close>.
\<close>

theorem empty_history_is_not_parsed:
  "JSON_parse env_B [] = Inl unexpected_end \<and>
   POST env_B (Inr \<lparr>form_audio = Some (FileEntry demo_audio), form_history = Some []\<rparr>) =
   POST env_B request_B \<and>
   status_code (fst (POST env_B (Inr \<lparr>form_audio = Some (FileEntry demo_audio), form_history = Some []\<rparr>)))
     = 200"
  by code_simp

text \<open>
  Claim C8, amended. For every request whose form data can be read and whose history field
  is a non-empty text on which \<open>JSON.parse\<close> throws, the handler returns a response (it
  does not crash) with status 500 and the body \<open>{error, details}\<close>, where \<open>error\<close> is the
  fixed text and \<open>details\<close> is the message of the exception, or \<open>Unknown server error\<close>
  when that message is empty; no capability is invoked.
\<close>

theorem rejected_history_is_server_error:
  assumes "form_history fd = Some s" and "s \<noteq> []" and "JSON_parse e s = Inl err"
  shows "POST e (Inr fd) =
           (\<lparr>body = FailureDetails (js ''Failed to process audio chat'')
                      (if message err \<noteq> [] then message err else js ''Unknown server error''),
             status_code = 500\<rparr>, [])"
proof -
  have "parse_history e (form_history fd) = Inl err"
    using assms by (simp add: parse_history_def)
  thus ?thesis by (simp add: POST_parse_throws server_error_def)
qed

theorem rejected_history_is_server_error_witness:
  "form_history \<lparr>form_audio = Some (FileEntry demo_audio), form_history = Some (js ''['')\<rparr> = Some (js ''['') \<and>
   js ''['' \<noteq> [] \<and> JSON_parse env_B (js ''['') = Inl unexpected_end \<and>
   POST env_B (Inr \<lparr>form_audio = Some (FileEntry demo_audio), form_history = Some (js ''['')\<rparr>) =
     (\<lparr>body = FailureDetails (js ''Failed to process audio chat'')
                (js ''Unexpected end of JSON input''),
       status_code = 500\<rparr>, [])"
proof -
  have h1: "form_history \<lparr>form_audio = Some (FileEntry demo_audio), form_history = Some (js ''['')\<rparr>
              = Some (js ''['')"
    by simp
  have h2: "js ''['' \<noteq> []" by (simp add: js_Nil)
  have h3: "JSON_parse env_B (js ''['') = Inl unexpected_end" by code_simp
  have m: "message unexpected_end = js ''Unexpected end of JSON input''"
    "js ''Unexpected end of JSON input'' \<noteq> []"
    by (simp_all add: unexpected_end_def js_Nil)
  show ?thesis
    using h2 h3 rejected_history_is_server_error [OF h1 h2 h3] m by simp
qed

section \<open>Properties of the recorder\<close>

subsection \<open>What the handlers send\<close>

lemma release_stream_effects:
  "release_stream st = (st', effs) \<Longrightarrow> Fetch f \<notin> set effs"
  by (auto simp: release_stream_def split: option.splits)

lemma release_stream_fields:
  assumes "release_stream st = (st', effs)"
  shows "audioChunks st' = audioChunks st" and "conversation st' = conversation st"
    and "status st' = status st" and "isLoading st' = isLoading st"
    and "isRecording st' = isRecording st"
  using assms by (auto simp: release_stream_def split: option.splits)

lemma present_reply_effects:
  "present_reply u t a st = (st', effs) \<Longrightarrow> Fetch f \<notin> set effs"
  by (auto simp: present_reply_def Let_def split: if_splits)

lemma process_data_effects:
  "process_data b data st = (st', effs, thrown) \<Longrightarrow> Fetch f \<notin> set effs"
  by (auto simp: process_data_def Let_def
      split: sum.splits option.splits prod.splits dest: present_reply_effects)

lemma try_submit_effects:
  "try_submit b formData st = (st', effs, thrown) \<Longrightarrow> Fetch f \<in> set effs \<Longrightarrow> f = formData"
  by (auto simp: try_submit_def Let_def
      split: sum.splits if_splits prod.splits dest: process_data_effects)

lemma catch_error_effects:
  "catch_error err st = (st', effs) \<Longrightarrow> Fetch f \<notin> set effs"
  unfolding catch_error_def by (rule release_stream_effects)

text \<open>The two ways through \<open>onstop\<close> that reach the end of the handler.\<close>

lemma onstop_empty:
  assumes "release_stream
       (st\<lparr>isLoading := True, status := js ''Recording stopped. Processing audio...''\<rparr>) =
     (st1, released)"
    and "audioChunks st = []"
  shows "onstop b r st =
     (st1\<lparr>status := js ''No audio detected. Please try recording again.'',
          isLoading := False, isRecording := False\<rparr>, released)"
proof -
  have "audioChunks st1 = []"
    using release_stream_fields(1) [OF assms(1)] assms(2) by simp
  thus ?thesis using assms(1) by (simp add: onstop_def)
qed

lemma onstop_submit:
  assumes "release_stream
       (st\<lparr>isLoading := True, status := js ''Recording stopped. Processing audio...''\<rparr>) =
     (st1, released)"
    and "audioChunks st \<noteq> []"
    and "fileExtension (mimeType r) = Some ext"
    and "try_submit b
           \<lparr>audio_part = new_Blob (audioChunks st1) (mimeType r),
            audio_filename = js ''recording.'' @ ext,
            history_part = historyForApi (closure_conversation r)\<rparr> st1 = (st2, effs, thrown)"
    and "(case thrown of None \<Rightarrow> (st2, []) | Some err \<Rightarrow> catch_error err st2) = (st3, effs')"
  shows "onstop b r st = (finally_block r st3, released @ effs @ effs')"
proof -
  have "audioChunks st1 \<noteq> []"
    using release_stream_fields(1) [OF assms(1)] assms(2) by simp
  thus ?thesis using assms(1,3,4,5) by (simp add: onstop_def Let_def)
qed

lemma onstop_fetch:
  assumes "Fetch f \<in> set (snd (onstop b r st))"
  shows "history_part f = historyForApi (closure_conversation r)"
proof -
  obtain st1 released where rel:
    "release_stream
       (st\<lparr>isLoading := True, status := js ''Recording stopped. Processing audio...''\<rparr>) =
     (st1, released)"
    by (cases "release_stream
       (st\<lparr>isLoading := True, status := js ''Recording stopped. Processing audio...''\<rparr>)")
  have nr: "Fetch f \<notin> set released"
    using rel by (rule release_stream_effects)
  have same: "audioChunks st1 = audioChunks st"
    using release_stream_fields(1) [OF rel] by simp
  show ?thesis
  proof (cases "audioChunks st = []")
    case True
    with assms onstop_empty [OF rel True] nr show ?thesis by simp
  next
    case False
    show ?thesis
    proof (cases "fileExtension (mimeType r)")
      case None
      with assms rel nr False same show ?thesis by (simp add: onstop_def)
    next
      case (Some ext)
      define formData where "formData =
        \<lparr>audio_part = new_Blob (audioChunks st1) (mimeType r),
         audio_filename = js ''recording.'' @ ext,
         history_part = historyForApi (closure_conversation r)\<rparr>"
      obtain st2 effs thrown where ts: "try_submit b formData st1 = (st2, effs, thrown)"
        by (cases "try_submit b formData st1")
      obtain st3 effs' where ce:
        "(case thrown of None \<Rightarrow> (st2, []) | Some err \<Rightarrow> catch_error err st2) = (st3, effs')"
        by (cases "case thrown of None \<Rightarrow> (st2, []) | Some err \<Rightarrow> catch_error err st2")
      have "onstop b r st = (finally_block r st3, released @ effs @ effs')"
        using rel False Some ts [unfolded formData_def] ce by (rule onstop_submit)
      hence "Fetch f \<in> set (released @ effs @ effs')" using assms by simp
      moreover have "Fetch f \<notin> set effs'"
      proof (cases thrown)
        case None
        with ce show ?thesis by auto
      next
        case (Some err)
        with ce have "catch_error err st2 = (st3, effs')" by simp
        thus ?thesis by (rule catch_error_effects)
      qed
      ultimately have "Fetch f \<in> set effs" using nr by simp
      with ts have "f = formData" by (rule try_submit_effects)
      thus ?thesis by (simp add: formData_def)
    qed
  qed
qed

lemma length_historyForApi: "length (historyForApi conv) \<le> 8"
proof -
  have "length (filter (\<lambda>msg. role msg = You \<or> role msg = Assistant) (slice_last 8 conv))
          \<le> length (slice_last 8 conv)"
    by (rule length_filter_le)
  also have "\<dots> \<le> 8" by (simp add: slice_last_def)
  finally show ?thesis by (simp add: historyForApi_def)
qed

lemma subseq_slice_last: "subseq (slice_last n xs) xs"
  unfolding slice_last_def by (rule suffix_imp_subseq) (rule suffix_drop)

text \<open>
  Claim C6. The history of every submission that \<open>onstop\<close> sends has at most 8 entries, and
  it is the image of a subsequence of the transcript (as the handler sees it) none of
  whose turns has the Error role: only user and assistant turns are sent.
\<close>

theorem history_bounded_without_errors:
  assumes "Fetch formData \<in> set (snd (onstop b r st))"
  shows "length (history_part formData) \<le> 8 \<and>
         (\<exists>turns. subseq turns (closure_conversation r) \<and>
                  (\<forall>m\<in>set turns. role m \<noteq> Error \<and> (role m = You \<or> role m = Assistant)) \<and>
                  history_part formData = map to_api turns)"
proof
  let ?conv = "closure_conversation r"
  let ?turns = "filter (\<lambda>msg. role msg = You \<or> role msg = Assistant) (slice_last 8 ?conv)"
  have h: "history_part formData = historyForApi ?conv"
    using assms by (rule onstop_fetch)
  show "length (history_part formData) \<le> 8"
    by (simp add: h length_historyForApi)
  have "subseq ?turns (slice_last 8 ?conv)" by simp
  hence 1: "subseq ?turns ?conv"
    using subseq_slice_last [of 8 ?conv] by (rule subseq_order.trans)
  have 2: "\<forall>m\<in>set ?turns. role m \<noteq> Error \<and> (role m = You \<or> role m = Assistant)"
    by auto
  have 3: "history_part formData = map to_api ?turns"
    by (simp add: h historyForApi_def)
  show "\<exists>turns. subseq turns ?conv \<and>
          (\<forall>m\<in>set turns. role m \<noteq> Error \<and> (role m = You \<or> role m = Assistant)) \<and>
          history_part formData = map to_api turns"
    using 1 2 3 by (intro exI [of _ ?turns] conjI)
qed

theorem history_bounded_without_errors_witness:
  "Fetch demo_submission
     \<in> set (snd (onstop browser_audio demo_recorder (initial_page\<lparr>audioChunks := [demo_chunk]\<rparr>))) \<and>
   length (history_part demo_submission) \<le> 8 \<and>
   (\<exists>turns. subseq turns (closure_conversation demo_recorder) \<and>
            (\<forall>m\<in>set turns. role m \<noteq> Error \<and> (role m = You \<or> role m = Assistant)) \<and>
            history_part demo_submission = map to_api turns)"
proof -
  have h: "Fetch demo_submission
     \<in> set (snd (onstop browser_audio demo_recorder (initial_page\<lparr>audioChunks := [demo_chunk]\<rparr>)))"
    by code_simp
  show ?thesis by (rule conjI [OF h history_bounded_without_errors [OF h]])
qed

subsection \<open>Empty recordings\<close>

text \<open>
  \<open>startRecording\<close> empties \<open>audioChunks\<close>, \<open>stopRecording\<close> leaves it alone, and
  \<open>ondataavailable\<close> drops a blob of size zero.
\<close>

lemma startRecording_clears_chunks:
  "\<not> isRecording st \<Longrightarrow> isRecording (fst (startRecording b st)) \<Longrightarrow>
   audioChunks (fst (startRecording b st)) = []"
  by (auto simp: startRecording_def Let_def release_stream_def
      split: sum.splits option.splits prod.splits)

lemma stopRecording_chunks: "audioChunks (stopRecording st) = audioChunks st"
  by (simp add: stopRecording_def split: option.splits)

lemma ondataavailable_empty: "blob_size d = 0 \<Longrightarrow> ondataavailable d st = st"
  by (simp add: ondataavailable_def)

lemma no_bytes_no_chunks:
  "sum_list (map blob_size ds) = 0 \<Longrightarrow> foldl (\<lambda>st d. ondataavailable d st) st ds = st"
  by (induction ds arbitrary: st) (simp_all add: ondataavailable_empty)

text \<open>
  Claim C7. When the data delivered since the start of a recording (where \<open>audioChunks\<close>
  is empty) amounts to zero bytes, \<open>onstop\<close> sends no request, leaves the transcript as it
  was (so no Error turn is added), sets the status to the no-audio message, and leaves
  \<open>isLoading\<close> and \<open>isRecording\<close> false.
\<close>

theorem empty_recording_is_not_submitted:
  assumes "audioChunks st = []" and "sum_list (map blob_size ds) = 0"
  shows "(\<forall>f. Fetch f \<notin> set (snd (onstop b r (foldl (\<lambda>st d. ondataavailable d st) st ds)))) \<and>
         conversation (fst (onstop b r (foldl (\<lambda>st d. ondataavailable d st) st ds)))
           = conversation st \<and>
         status (fst (onstop b r (foldl (\<lambda>st d. ondataavailable d st) st ds)))
           = js ''No audio detected. Please try recording again.'' \<and>
         \<not> isLoading (fst (onstop b r (foldl (\<lambda>st d. ondataavailable d st) st ds))) \<and>
         \<not> isRecording (fst (onstop b r (foldl (\<lambda>st d. ondataavailable d st) st ds)))"
proof -
  have same: "foldl (\<lambda>st d. ondataavailable d st) st ds = st"
    using assms(2) by (rule no_bytes_no_chunks)
  obtain st1 released where rel:
    "release_stream
       (st\<lparr>isLoading := True, status := js ''Recording stopped. Processing audio...''\<rparr>) =
     (st1, released)"
    by (cases "release_stream
       (st\<lparr>isLoading := True, status := js ''Recording stopped. Processing audio...''\<rparr>)")
  have stop: "onstop b r st =
     (st1\<lparr>status := js ''No audio detected. Please try recording again.'',
          isLoading := False, isRecording := False\<rparr>, released)"
    using rel assms(1) by (rule onstop_empty)
  have "\<forall>f. Fetch f \<notin> set released"
    using release_stream_effects [OF rel] by simp
  moreover have "conversation st1 = conversation st"
    using release_stream_fields(2) [OF rel] by simp
  ultimately show ?thesis by (simp add: same stop)
qed

theorem empty_recording_is_not_submitted_witness:
  "audioChunks (fst (startRecording browser_audio initial_page)) = [] \<and>
   sum_list (map blob_size [silent_chunk]) = 0 \<and>
   onstop browser_audio first_recorder
     (foldl (\<lambda>st d. ondataavailable d st)
        (fst (startRecording browser_audio initial_page)) [silent_chunk]) =
   (initial_page
      \<lparr>status := js ''No audio detected. Please try recording again.'',
       mediaRecorder := Some first_recorder\<rparr>,
    [StopTracks 1]) \<and>
   (\<forall>f. Fetch f \<notin> set (snd (onstop browser_audio first_recorder
      (foldl (\<lambda>st d. ondataavailable d st)
         (fst (startRecording browser_audio initial_page)) [silent_chunk]))))"
proof -
  have h1: "audioChunks (fst (startRecording browser_audio initial_page)) = []"
    by code_simp
  have h2: "sum_list (map blob_size [silent_chunk]) = 0"
    by code_simp
  have v: "onstop browser_audio first_recorder
     (foldl (\<lambda>st d. ondataavailable d st)
        (fst (startRecording browser_audio initial_page)) [silent_chunk]) =
   (initial_page
      \<lparr>status := js ''No audio detected. Please try recording again.'',
       mediaRecorder := Some first_recorder\<rparr>,
    [StopTracks 1])"
    by code_simp
  from empty_recording_is_not_submitted [OF h1 h2, of browser_audio first_recorder]
  have "\<forall>f. Fetch f \<notin> set (snd (onstop browser_audio first_recorder
      (foldl (\<lambda>st d. ondataavailable d st)
         (fst (startRecording browser_audio initial_page)) [silent_chunk])))"
    by (rule conjunct1)
  with h1 h2 v show ?thesis by (intro conjI)
qed

subsection \<open>The end of a submission\<close>

text \<open>Every recording format of \<open>supportedTypes\<close> has a file extension.\<close>

lemma fileExtension_supported: "list_all (\<lambda>mt. fileExtension mt \<noteq> None) supportedTypes"
  by code_simp

lemma finally_block_fields:
  "isLoading (finally_block r st) = False"
  "isRecording (finally_block r st) = False"
  "audioChunks (finally_block r st) = []"
  "conversation (finally_block r st) = conversation st"
  "status (finally_block r st) =
     (if keeps_status (closure_status r) then status st else js ''Ready. Click Start Recording.'')"
  by (simp_all add: finally_block_def Let_def)

text \<open>
  What holds at the end of every submission that reaches the \<open>try\<close> block: the chunks are
  cleared and both flags are false. The status is reset to the ready prompt exactly when
  the status the handler closed over, the one shown when recording was started, is neither
  an error nor a playback message; what the submission itself set does not count.
\<close>

theorem submission_always_finishes:
  assumes "audioChunks st \<noteq> []" and "fileExtension (mimeType r) = Some ext"
  shows "\<not> isLoading (fst (onstop b r st)) \<and> \<not> isRecording (fst (onstop b r st)) \<and>
         audioChunks (fst (onstop b r st)) = [] \<and>
         (keeps_status (closure_status r) \<or>
          status (fst (onstop b r st)) = js ''Ready. Click Start Recording.'')"
proof -
  obtain st1 released where rel:
    "release_stream
       (st\<lparr>isLoading := True, status := js ''Recording stopped. Processing audio...''\<rparr>) =
     (st1, released)"
    by (cases "release_stream
       (st\<lparr>isLoading := True, status := js ''Recording stopped. Processing audio...''\<rparr>)")
  define formData where "formData =
    \<lparr>audio_part = new_Blob (audioChunks st1) (mimeType r),
     audio_filename = js ''recording.'' @ ext,
     history_part = historyForApi (closure_conversation r)\<rparr>"
  obtain st2 effs thrown where ts: "try_submit b formData st1 = (st2, effs, thrown)"
    by (cases "try_submit b formData st1")
  obtain st3 effs' where ce:
    "(case thrown of None \<Rightarrow> (st2, []) | Some err \<Rightarrow> catch_error err st2) = (st3, effs')"
    by (cases "case thrown of None \<Rightarrow> (st2, []) | Some err \<Rightarrow> catch_error err st2")
  have "onstop b r st = (finally_block r st3, released @ effs @ effs')"
    using rel assms ts [unfolded formData_def] ce by (rule onstop_submit)
  thus ?thesis by (simp add: finally_block_fields)
qed

theorem submission_always_finishes_witness:
  "audioChunks (initial_page\<lparr>audioChunks := [demo_chunk]\<rparr>) \<noteq> [] \<and>
   fileExtension (mimeType demo_recorder) = Some (js ''webm'') \<and>
   keeps_status (closure_status demo_recorder) = False \<and>
   \<not> isLoading (fst (onstop browser_offline demo_recorder
                        (initial_page\<lparr>audioChunks := [demo_chunk]\<rparr>))) \<and>
   \<not> isRecording (fst (onstop browser_offline demo_recorder
                          (initial_page\<lparr>audioChunks := [demo_chunk]\<rparr>))) \<and>
   audioChunks (fst (onstop browser_offline demo_recorder
                       (initial_page\<lparr>audioChunks := [demo_chunk]\<rparr>))) = [] \<and>
   status (fst (onstop browser_offline demo_recorder
                  (initial_page\<lparr>audioChunks := [demo_chunk]\<rparr>)))
     = js ''Ready. Click Start Recording.''"
proof -
  have h1: "audioChunks (initial_page\<lparr>audioChunks := [demo_chunk]\<rparr>) \<noteq> []"
    by simp
  have h2: "fileExtension (mimeType demo_recorder) = Some (js ''webm'')"
    by code_simp
  have k: "keeps_status (closure_status demo_recorder) = False"
    by code_simp
  show ?thesis
    using h1 h2 k submission_always_finishes [OF h1 h2, of browser_offline] by simp
qed

text \<open>
  Claim C5. The \<open>finally\<close> block is meant to leave alone a status that the submission set
  to an error or a playback message, and to reset any other to the ready prompt. The
  status it tests is the one of the render in which recording was started. Two runs:
  after a first turn whose audio is playing, a second utterance is answered without audio
  and nothing goes wrong, yet the status is not reset to the ready prompt; and on the
  initial page a submission that fails for lack of a network appends its Error turn, yet
  the error status it set is replaced by the ready prompt.
\<close>

theorem status_reset_reads_stale_status:
  "status after_first_turn = js ''Playing response... Click Start Recording when ready.'' \<and>
   status (fst (utterance browser_text_only [demo_chunk] after_first_turn))
     = js ''Received text response. Click Start Recording when ready.'' \<and>
   map role (conversation (fst (utterance browser_text_only [demo_chunk] after_first_turn)))
     = [You, Assistant, You, Assistant] \<and>
   status (fst (utterance browser_offline [demo_chunk] initial_page))
     = js ''Ready. Click Start Recording.'' \<and>
   conversation (fst (utterance browser_offline [demo_chunk] initial_page))
     = [turn Error ''Processing failed: Failed to fetch'']"
  by code_simp

end
